theory Spec2Isabelle
  imports Main
begin

section \<open>The blog storage consumed by the plugins\<close>

text \<open>
  The module \<^verbatim>\<open>cmsplugin_zinnia/cms_plugins.py\<close> holds seven plugin classes whose
  \<^verbatim>\<open>render\<close> methods build a queryset of blog entries and put it into the template
  context. The querysets come from the blog's storage layer; an entry, a category, an
  author and a tag are rows of that layer, identified by their primary key.
\<close>

datatype entry = Entry nat

datatype category = Category nat

datatype author = Author nat

datatype tag = Tag string

text \<open>
  Modelled from the spec: the storage and query layer (the published-entry queryset,
  the category, author and tag relations, the category hierarchy and the full-text
  search) is an external collaborator and not part of the module. The record holds what
  the render methods read from it:
  \<^item> \<open>published\<close>: the rows of \<^verbatim>\<open>Entry.published.all()\<close> in the queryset's order;
  \<^item> \<open>entry_categories\<close>, \<open>entry_authors\<close>: the many-to-many rows of an entry;
  \<^item> \<open>entry_tags\<close>: the tags attached to an entry (the \<^verbatim>\<open>TaggedItem\<close> rows);
  \<^item> \<open>get_descendants\<close>: \<^verbatim>\<open>c.get_descendants()\<close> of the category hierarchy;
  \<^item> \<open>search\<close>: \<^verbatim>\<open>Entry.published.search(query)\<close>;
  \<^item> \<open>default_ordering\<close>: the sort key of the entry model's default ordering, in which a
    queryset of entries comes when nothing else orders it (a queryset is "orderable").
\<close>

record db =
  published :: "entry list"
  entry_categories :: "entry \<Rightarrow> category list"
  entry_authors :: "entry \<Rightarrow> author list"
  entry_tags :: "entry \<Rightarrow> tag list"
  get_descendants :: "category \<Rightarrow> category list"
  search :: "string \<Rightarrow> entry list"
  default_ordering :: "entry \<Rightarrow> int"

text \<open>
  Modelled from the spec: \<^verbatim>\<open>entries.filter(categories__in=cats)\<close>, the operation
  "filter by category set". The lookup spans a many-to-many relation, so the queryset is
  joined with the relation: a row of the queryset comes out once for each of its
  categories that lies in \<open>cats\<close>, and not at all when it has none.
\<close>

definition filter_categories_in :: "db \<Rightarrow> entry list \<Rightarrow> category list \<Rightarrow> entry list" where
  "filter_categories_in d qs cats =
     concat (map (\<lambda>e. map (\<lambda>c. e) (filter (\<lambda>c. c \<in> set cats) (entry_categories d e))) qs)"

text \<open>
  Modelled from the spec: \<^verbatim>\<open>entries.filter(authors__in=...)\<close>, the operation "filter by
  author set"; a join over the author relation, like the one over categories.
\<close>

definition filter_authors_in :: "db \<Rightarrow> entry list \<Rightarrow> author list \<Rightarrow> entry list" where
  "filter_authors_in d qs auths =
     concat (map (\<lambda>e. map (\<lambda>a. e) (filter (\<lambda>a. a \<in> set auths) (entry_authors d e))) qs)"

text \<open>
  Modelled from the spec: \<^verbatim>\<open>TaggedItem.objects.get_union_by_model(queryset, tags)\<close>,
  the operation "filter by tag set (OR semantics)". It keeps the rows of the queryset
  whose entry carries at least one of the tags, and is the empty queryset when no tag is
  given.
\<close>

definition get_union_by_model :: "db \<Rightarrow> entry list \<Rightarrow> tag list \<Rightarrow> entry list" where
  "get_union_by_model d qs tgs =
     (if tgs = [] then []
      else filter (\<lambda>e. \<exists>t \<in> set tgs. t \<in> set (entry_tags d e)) qs)"

text \<open>
  Modelled from the spec: \<^verbatim>\<open>entries.distinct()\<close>, the "deduplicatable" capability of a
  queryset. Equal rows are merged into one, at the place of the first of them, so the
  order of the queryset is kept.
\<close>

fun distinct_qs :: "'a list \<Rightarrow> 'a list" where
  "distinct_qs [] = []"
| "distinct_qs (x # xs) = x # distinct_qs (filter (\<lambda>y. y \<noteq> x) xs)"

section \<open>The plugin configurations\<close>

text \<open>
  Modelled from the spec: the plugin models (\<^verbatim>\<open>cmsplugin_zinnia/models.py\<close>) are not
  part of the module; their fields are the ones the admin declarations (\<^verbatim>\<open>fields\<close>,
  \<^verbatim>\<open>fieldsets\<close>) and the render methods name. The number of entries is a count that may
  be unset, the template override is a string that is empty when no override is chosen,
  year and month are optional. The \<open>entries\<close> of the selected-entries plugin are a
  many-to-many relation (\<^verbatim>\<open>filter_horizontal = ['entries']\<close>, line 102): the field holds
  the rows of the relation, in the order in which they were added; the relation holds an
  entry at most once.
\<close>

record SelectedEntriesPlugin =
  entries :: "entry list"
  template_to_render :: string

record RandomEntriesPlugin =
  number_of_entries :: "nat option"
  template_to_render :: string

record QueryEntriesPlugin =
  query :: string
  number_of_entries :: "nat option"
  template_to_render :: string

record CalendarEntriesPlugin =
  year :: "nat option"
  month :: "nat option"

record LatestEntriesPlugin =
  number_of_entries :: "nat option"
  template_to_render :: string
  categories :: "category list"
  subcategories :: bool
  authors :: "author list"
  tags :: "tag list"

section \<open>The template context\<close>

text \<open>
  The context maps names to values. \<^verbatim>\<open>context.update({...})\<close> changes the context it
  is called on and \<^verbatim>\<open>return context\<close> hands that same object back, so a render
  method is modelled as a function from the context before the call to the context after
  it. The values are the ones the render methods store, and \<open>Opaque\<close> for whatever else
  the host has put there.
\<close>

type_synonym placeholder = string

datatype 'i py_value =
    QuerySet "entry list"
  | Instance 'i
  | Placeholder placeholder
  | Str string
  | Opaque nat

type_synonym 'i py_context = "string \<rightharpoonup> 'i py_value"

section \<open>\<^verbatim>\<open>CMSLatestEntriesPlugin.render\<close>\<close>

text \<open>
  Lines 72 to 76: \<open>cats\<close> is the configured categories, followed by the descendants of
  each of them when \<open>subcategories\<close> is set.
\<close>

definition effective_categories :: "db \<Rightarrow> LatestEntriesPlugin \<Rightarrow> category list" where
  "effective_categories d inst =
     (let cats = categories inst in
      if subcategories inst then cats @ concat (map (get_descendants d) cats) else cats)"

text \<open>Lines 71 to 78: the category restriction, under its guard.\<close>

definition categories_stage :: "db \<Rightarrow> LatestEntriesPlugin \<Rightarrow> entry list \<Rightarrow> entry list" where
  "categories_stage d inst qs =
     (if length (categories inst) \<noteq> 0
      then filter_categories_in d qs (effective_categories d inst)
      else qs)"

text \<open>Lines 79 and 80: the author restriction, under its guard.\<close>

definition authors_stage :: "db \<Rightarrow> LatestEntriesPlugin \<Rightarrow> entry list \<Rightarrow> entry list" where
  "authors_stage d inst qs =
     (if length (authors inst) \<noteq> 0
      then filter_authors_in d qs (authors inst)
      else qs)"

text \<open>Lines 81 to 83: the tag restriction, under its guard.\<close>

definition tags_stage :: "db \<Rightarrow> LatestEntriesPlugin \<Rightarrow> entry list \<Rightarrow> entry list" where
  "tags_stage d inst qs =
     (if length (tags inst) \<noteq> 0
      then get_union_by_model d qs (tags inst)
      else qs)"

text \<open>Lines 69 to 85: the queryset after \<^verbatim>\<open>entries.distinct()\<close>, before the limit.\<close>

definition latest_queryset :: "db \<Rightarrow> LatestEntriesPlugin \<Rightarrow> entry list" where
  "latest_queryset d inst =
     distinct_qs (tags_stage d inst (authors_stage d inst (categories_stage d inst (published d))))"

text \<open>
  Lines 86 and 87: \<^verbatim>\<open>if instance.number_of_entries:\<close> is false for an unset number and
  for zero; otherwise the queryset is sliced to its first \<open>number_of_entries\<close> rows.
\<close>

definition latest_entries :: "db \<Rightarrow> LatestEntriesPlugin \<Rightarrow> entry list" where
  "latest_entries d inst =
     (let entries = latest_queryset d inst in
      case number_of_entries inst of
        None \<Rightarrow> entries
      | Some n \<Rightarrow> if n \<noteq> 0 then take n entries else entries)"

text \<open>Lines 88 to 91.\<close>

definition render_latest ::
  "LatestEntriesPlugin py_context \<Rightarrow> db \<Rightarrow> LatestEntriesPlugin \<Rightarrow> placeholder
     \<Rightarrow> LatestEntriesPlugin py_context" where
  "render_latest ctx d inst ph =
     ctx ++ [''entries'' \<mapsto> QuerySet (latest_entries d inst),
             ''object'' \<mapsto> Instance inst,
             ''placeholder'' \<mapsto> Placeholder ph]"

section \<open>The other render methods\<close>

text \<open>
  Modelled from the spec: \<^verbatim>\<open>instance.entries.all()\<close>, the call on the related manager
  of the many-to-many field, which belongs to the storage layer. It returns the rows of
  the relation as a queryset, and that queryset comes in the entry model's default
  ordering, not in the order in which the entries were selected. Rows with equal keys
  keep their stored order here; the ordering itself leaves their order open.
\<close>

definition entries_all :: "db \<Rightarrow> SelectedEntriesPlugin \<Rightarrow> entry list" where
  "entries_all d inst = sort_key (default_ordering d) (entries inst)"

text \<open>\<^verbatim>\<open>CMSSelectedEntriesPlugin.render\<close>, lines 104 to 111.\<close>

definition render_selected ::
  "SelectedEntriesPlugin py_context \<Rightarrow> db \<Rightarrow> SelectedEntriesPlugin \<Rightarrow> placeholder
     \<Rightarrow> SelectedEntriesPlugin py_context" where
  "render_selected ctx d inst ph =
     ctx ++ [''entries'' \<mapsto> QuerySet (entries_all d inst),
             ''object'' \<mapsto> Instance inst,
             ''placeholder'' \<mapsto> Placeholder ph]"

text \<open>
  \<^verbatim>\<open>CMSRandomEntriesPlugin.render\<close>, lines 123 to 132. \<^verbatim>\<open>str(s) or default\<close> is
  \<open>s\<close> unless \<open>s\<close> is the empty string.
\<close>

definition render_random ::
  "RandomEntriesPlugin py_context \<Rightarrow> RandomEntriesPlugin \<Rightarrow> placeholder
     \<Rightarrow> RandomEntriesPlugin py_context" where
  "render_random ctx inst ph =
     ctx ++ [''object'' \<mapsto> Instance inst,
             ''placeholder'' \<mapsto> Placeholder ph,
             ''template_to_render'' \<mapsto>
               Str (let s = RandomEntriesPlugin.template_to_render inst in
                    if s \<noteq> [] then s else ''zinnia/tags/random_entries.html'')]"

text \<open>\<^verbatim>\<open>CMSQueryEntriesPlugin.render\<close>, lines 148 to 150: the entries, and the limit.\<close>

definition query_entries :: "db \<Rightarrow> QueryEntriesPlugin \<Rightarrow> entry list" where
  "query_entries d inst =
     (let entries = search d (query inst) in
      case QueryEntriesPlugin.number_of_entries inst of
        None \<Rightarrow> entries
      | Some n \<Rightarrow> if n \<noteq> 0 then take n entries else entries)"

text \<open>Lines 152 to 155.\<close>

definition render_query ::
  "QueryEntriesPlugin py_context \<Rightarrow> db \<Rightarrow> QueryEntriesPlugin \<Rightarrow> placeholder
     \<Rightarrow> QueryEntriesPlugin py_context" where
  "render_query ctx d inst ph =
     ctx ++ [''entries'' \<mapsto> QuerySet (query_entries d inst),
             ''object'' \<mapsto> Instance inst,
             ''placeholder'' \<mapsto> Placeholder ph]"

text \<open>\<^verbatim>\<open>CMSCalendarEntriesPlugin.render\<close>, lines 171 to 177.\<close>

definition render_calendar ::
  "CalendarEntriesPlugin py_context \<Rightarrow> CalendarEntriesPlugin \<Rightarrow> placeholder
     \<Rightarrow> CalendarEntriesPlugin py_context" where
  "render_calendar ctx inst ph =
     ctx ++ [''object'' \<mapsto> Instance inst, ''placeholder'' \<mapsto> Placeholder ph]"

text \<open>
  \<^verbatim>\<open>CMSSearchPlugin.render\<close>, lines 188 to 194, and \<^verbatim>\<open>CMSToolsPlugin.render\<close>, lines
  211 to 217. Their model is the host's plain plugin record, of which they read nothing.
\<close>

definition render_search :: "'i py_context \<Rightarrow> 'i \<Rightarrow> placeholder \<Rightarrow> 'i py_context" where
  "render_search ctx inst ph =
     ctx ++ [''object'' \<mapsto> Instance inst, ''placeholder'' \<mapsto> Placeholder ph]"

definition render_tools :: "'i py_context \<Rightarrow> 'i \<Rightarrow> placeholder \<Rightarrow> 'i py_context" where
  "render_tools ctx inst ph =
     ctx ++ [''object'' \<mapsto> Instance inst, ''placeholder'' \<mapsto> Placeholder ph]"

text \<open>
  Modelled from the spec: the calendar template (\<^verbatim>\<open>cmsplugin_zinnia/calendar.html\<close>) is
  not part of the module. The parameters the rendering layer receives are the year and
  the month of the \<open>object\<close> in the context ("passes raw parameters to rendering layer").
\<close>

definition calendar_parameters ::
  "CalendarEntriesPlugin py_context \<Rightarrow> (nat option \<times> nat option) option" where
  "calendar_parameters ctx =
     (case ctx ''object'' of
        Some (Instance inst) \<Rightarrow> Some (year inst, month inst)
      | _ \<Rightarrow> None)"

section \<open>The restrictions, as the specification words them\<close>

text \<open>
  An entry satisfies the category restriction when no category is configured, or when
  one of its categories is in the effective category set; likewise for authors; and it
  satisfies the tag restriction when no tag is configured or it carries one of the
  configured tags.
\<close>

definition category_restriction :: "db \<Rightarrow> LatestEntriesPlugin \<Rightarrow> entry \<Rightarrow> bool" where
  "category_restriction d inst e \<longleftrightarrow>
     categories inst = [] \<or>
     (\<exists>c \<in> set (entry_categories d e). c \<in> set (effective_categories d inst))"

definition author_restriction :: "db \<Rightarrow> LatestEntriesPlugin \<Rightarrow> entry \<Rightarrow> bool" where
  "author_restriction d inst e \<longleftrightarrow>
     authors inst = [] \<or> (\<exists>a \<in> set (entry_authors d e). a \<in> set (authors inst))"

definition tag_restriction :: "db \<Rightarrow> LatestEntriesPlugin \<Rightarrow> entry \<Rightarrow> bool" where
  "tag_restriction d inst e \<longleftrightarrow>
     tags inst = [] \<or> (\<exists>t \<in> set (tags inst). t \<in> set (entry_tags d e))"

section \<open>A small blog\<close>

text \<open>
  Five published entries. Category 1 has the descendant category 2. Entry 3 is in both,
  so a filter on both joins it twice. The tag \<open>a\<close> is on entries 1 and 3, the tag \<open>b\<close> on
  entries 2 and 4, the tag \<open>c\<close> on entries 3 and 5. The default ordering is by primary
  key.
\<close>

definition blog :: db where
  "blog =
     \<lparr>published = [Entry 1, Entry 2, Entry 3, Entry 4, Entry 5],
      entry_categories = (\<lambda>e.
        if e = Entry 1 then [Category 2]
        else if e = Entry 2 then [Category 1]
        else if e = Entry 3 then [Category 1, Category 2]
        else if e = Entry 5 then [Category 3]
        else []),
      entry_authors = (\<lambda>e.
        if e = Entry 1 then [Author 1]
        else if e = Entry 2 then [Author 1, Author 2]
        else if e = Entry 3 then [Author 2]
        else if e = Entry 4 then [Author 1]
        else []),
      entry_tags = (\<lambda>e.
        if e = Entry 1 then [Tag ''a'']
        else if e = Entry 2 then [Tag ''b'']
        else if e = Entry 3 then [Tag ''a'', Tag ''c'']
        else if e = Entry 4 then [Tag ''b'']
        else if e = Entry 5 then [Tag ''c'']
        else []),
      get_descendants = (\<lambda>c. if c = Category 1 then [Category 2] else []),
      search = (\<lambda>q. if q = ''django'' then [Entry 4, Entry 2, Entry 1] else []),
      default_ordering = (\<lambda>e. case e of Entry n \<Rightarrow> int n)\<rparr>"

definition latest_plugin ::
  "nat option \<Rightarrow> category list \<Rightarrow> bool \<Rightarrow> author list \<Rightarrow> tag list \<Rightarrow> LatestEntriesPlugin" where
  "latest_plugin n cats sub auths tgs =
     \<lparr>number_of_entries = n, template_to_render = [],
      categories = cats, subcategories = sub, authors = auths, tags = tgs\<rparr>"

section \<open>Facts about the query layer\<close>

lemma set_filter_categories_in:
  "set (filter_categories_in d qs cats) =
     {e \<in> set qs. \<exists>c \<in> set (entry_categories d e). c \<in> set cats}"
  by (auto simp: filter_categories_in_def)

lemma set_filter_authors_in:
  "set (filter_authors_in d qs auths) =
     {e \<in> set qs. \<exists>a \<in> set (entry_authors d e). a \<in> set auths}"
  by (auto simp: filter_authors_in_def)

lemma set_get_union_by_model:
  "set (get_union_by_model d qs tgs) =
     {e \<in> set qs. \<exists>t \<in> set tgs. t \<in> set (entry_tags d e)}"
  by (auto simp: get_union_by_model_def)

lemma set_distinct_qs: "set (distinct_qs xs) = set xs"
proof (induction xs rule: distinct_qs.induct)
  case 1
  show ?case by simp
next
  case (2 x xs)
  then show ?case by auto
qed

lemma distinct_distinct_qs: "distinct (distinct_qs xs)"
proof (induction xs rule: distinct_qs.induct)
  case 1
  show ?case by simp
next
  case (2 x xs)
  then show ?case by (simp add: set_distinct_qs)
qed

lemma filter_join:
  "filter P (concat (map (\<lambda>e. map (\<lambda>c. e) (f e)) xs)) =
     concat (map (\<lambda>e. map (\<lambda>c. e) (f e)) (filter P xs))"
  by (induction xs) auto

lemma distinct_qs_filter: "distinct_qs (filter P xs) = filter P (distinct_qs xs)"
proof (induction xs rule: distinct_qs.induct)
  case 1
  show ?case by simp
next
  case (2 x xs)
  show ?case
  proof (cases "P x")
    case True
    have "filter (\<lambda>y. y \<noteq> x) (filter P xs) = filter P (filter (\<lambda>y. y \<noteq> x) xs)"
      by (simp add: conj_commute)
    with True 2 show ?thesis by simp
  next
    case False
    then have "filter P (filter (\<lambda>y. y \<noteq> x) xs) = filter P xs"
      by (auto intro: filter_cong)
    with False 2 show ?thesis by simp
  qed
qed

lemma distinct_qs_copies:
  "distinct_qs (map (\<lambda>c. x) cs @ ys) =
     (if cs = [] then distinct_qs ys else x # distinct_qs (filter (\<lambda>y. y \<noteq> x) ys))"
  by (cases cs) simp_all

lemma distinct_qs_join:
  "distinct_qs (concat (map (\<lambda>e. map (\<lambda>c. e) (f e)) xs)) =
     distinct_qs (filter (\<lambda>e. f e \<noteq> []) xs)"
proof (induction xs rule: length_induct)
  case (1 xs)
  show ?case
  proof (cases xs)
    case Nil
    then show ?thesis by simp
  next
    case (Cons x xs')
    have len: "length (filter (\<lambda>y. y \<noteq> x) xs') < length xs"
      using Cons by (simp add: le_imp_less_Suc)
    show ?thesis
    proof (cases "f x = []")
      case True
      with 1 Cons show ?thesis by simp
    next
      case False
      have "distinct_qs (concat (map (\<lambda>e. map (\<lambda>c. e) (f e)) (filter (\<lambda>y. y \<noteq> x) xs'))) =
            distinct_qs (filter (\<lambda>e. f e \<noteq> []) (filter (\<lambda>y. y \<noteq> x) xs'))"
        using 1 len by blast
      with False Cons show ?thesis
        by (simp add: distinct_qs_copies filter_join conj_commute)
    qed
  qed
qed

lemma distinct_qs_id: "distinct xs \<Longrightarrow> distinct_qs xs = xs"
proof (induction xs)
  case Nil
  show ?case by simp
next
  case (Cons x xs)
  then have "filter (\<lambda>y. y \<noteq> x) xs = xs"
    by (auto simp: filter_id_conv)
  with Cons show ?case by simp
qed

lemma count_list_distinct_qs: "count_list (distinct_qs xs) e = (if e \<in> set xs then 1 else 0)"
  by (induction xs rule: distinct_qs.induct) auto

lemma tags_stage_filter: "tags_stage d inst qs = filter (tag_restriction d inst) qs"
proof (cases "tags inst = []")
  case True
  then show ?thesis by (simp add: tags_stage_def tag_restriction_def)
next
  case False
  have "filter (\<lambda>e. \<exists>t \<in> set (tags inst). t \<in> set (entry_tags d e)) qs =
        filter (tag_restriction d inst) qs"
    using False by (intro filter_cong) (auto simp: tag_restriction_def)
  with False show ?thesis by (simp add: tags_stage_def get_union_by_model_def)
qed

lemma distinct_qs_authors_stage:
  "distinct_qs (authors_stage d inst qs) = filter (author_restriction d inst) (distinct_qs qs)"
proof (cases "authors inst = []")
  case True
  then show ?thesis by (simp add: authors_stage_def author_restriction_def)
next
  case False
  have "distinct_qs (filter_authors_in d qs (authors inst)) =
        distinct_qs (filter (\<lambda>e. filter (\<lambda>a. a \<in> set (authors inst)) (entry_authors d e) \<noteq> []) qs)"
    unfolding filter_authors_in_def by (rule distinct_qs_join)
  also have "filter (\<lambda>e. filter (\<lambda>a. a \<in> set (authors inst)) (entry_authors d e) \<noteq> []) qs =
             filter (author_restriction d inst) qs"
    using False by (intro filter_cong) (auto simp: author_restriction_def filter_empty_conv)
  finally show ?thesis
    using False by (simp add: authors_stage_def distinct_qs_filter)
qed

lemma distinct_qs_categories_stage:
  "distinct_qs (categories_stage d inst qs) = filter (category_restriction d inst) (distinct_qs qs)"
proof (cases "categories inst = []")
  case True
  then show ?thesis by (simp add: categories_stage_def category_restriction_def)
next
  case False
  have "distinct_qs (filter_categories_in d qs (effective_categories d inst)) =
        distinct_qs (filter (\<lambda>e. filter (\<lambda>c. c \<in> set (effective_categories d inst))
                                     (entry_categories d e) \<noteq> []) qs)"
    unfolding filter_categories_in_def by (rule distinct_qs_join)
  also have "filter (\<lambda>e. filter (\<lambda>c. c \<in> set (effective_categories d inst))
                             (entry_categories d e) \<noteq> []) qs =
             filter (category_restriction d inst) qs"
    using False by (intro filter_cong) (auto simp: category_restriction_def filter_empty_conv)
  finally show ?thesis
    using False by (simp add: categories_stage_def distinct_qs_filter)
qed

lemma latest_queryset_filter:
  "latest_queryset d inst =
     filter (\<lambda>e. category_restriction d inst e \<and> author_restriction d inst e \<and> tag_restriction d inst e)
       (distinct_qs (published d))"
proof -
  have "latest_queryset d inst =
        filter (tag_restriction d inst) (distinct_qs (authors_stage d inst (categories_stage d inst (published d))))"
    by (simp add: latest_queryset_def tags_stage_filter distinct_qs_filter)
  also have "\<dots> = filter (tag_restriction d inst) (filter (author_restriction d inst)
                     (filter (category_restriction d inst) (distinct_qs (published d))))"
    by (simp add: distinct_qs_authors_stage distinct_qs_categories_stage)
  also have "\<dots> = filter (\<lambda>e. category_restriction d inst e \<and> author_restriction d inst e \<and> tag_restriction d inst e)
       (distinct_qs (published d))"
    by (auto intro: filter_cong)
  finally show ?thesis .
qed

lemma count_list_distinct_le: "distinct xs \<Longrightarrow> count_list xs e \<le> 1"
  by (induction xs) (auto simp: count_list_0_iff)



lemmas blog_simps =
  blog_def latest_plugin_def latest_entries_def latest_queryset_def tags_stage_def
  authors_stage_def categories_stage_def effective_categories_def filter_categories_in_def
  filter_authors_in_def get_union_by_model_def

section \<open>The claims\<close>

text \<open>
  C1. The tag filter is an inclusive OR, and its result is deduplicated. Let \<open>e\<close> be a
  row of the queryset that reaches the tag restriction (a published entry that has passed
  the category and author restrictions). If \<open>e\<close> carries at least one of the configured
  tags, then \<open>e\<close> occurs exactly once in the queryset after \<^verbatim>\<open>distinct()\<close>, however many of
  the tags it carries and however often the joins have repeated it; without a limit that
  queryset is the output, and under any limit \<open>e\<close> occurs at most once in the output.
\<close>

theorem tag_union_exactly_once:
  assumes "e \<in> set (authors_stage d inst (categories_stage d inst (published d)))"
    and "\<exists>t \<in> set (tags inst). t \<in> set (entry_tags d e)"
  shows "count_list (latest_queryset d inst) e = 1 \<and>
         (number_of_entries inst = None \<or> number_of_entries inst = Some 0 \<longrightarrow>
            count_list (latest_entries d inst) e = 1) \<and>
         count_list (latest_entries d inst) e \<le> 1"
proof -
  from assms(2) have "tags inst \<noteq> []" by auto
  with assms have "e \<in> set (tags_stage d inst (authors_stage d inst (categories_stage d inst (published d))))"
    by (simp add: tags_stage_def set_get_union_by_model)
  then have one: "count_list (latest_queryset d inst) e = 1"
    by (simp add: latest_queryset_def count_list_distinct_qs)
  have "distinct (latest_entries d inst)"
    by (simp add: latest_entries_def latest_queryset_def Let_def distinct_distinct_qs split: option.split)
  then have "count_list (latest_entries d inst) e \<le> 1"
    by (rule count_list_distinct_le)
  with one show ?thesis
    by (auto simp: latest_entries_def)
qed

text \<open>
  On the small blog: entry 3 is joined twice by the categories 1 and 2 and carries both
  tags \<open>a\<close> and \<open>c\<close>; it is put out once.
\<close>

theorem tag_union_exactly_once_witness:
  "Entry 3 \<in> set (authors_stage blog (latest_plugin None [Category 1] True [] [Tag ''a'', Tag ''c''])
      (categories_stage blog (latest_plugin None [Category 1] True [] [Tag ''a'', Tag ''c''])
         (published blog))) \<and>
   Tag ''a'' \<in> set (entry_tags blog (Entry 3)) \<and> Tag ''c'' \<in> set (entry_tags blog (Entry 3)) \<and>
   count_list (latest_entries blog (latest_plugin None [Category 1] True [] [Tag ''a'', Tag ''c'']))
     (Entry 3) = 1"
proof -
  let ?i = "latest_plugin None [Category 1] True [] [Tag ''a'', Tag ''c'']"
  have h1: "Entry 3 \<in> set (authors_stage blog ?i (categories_stage blog ?i (published blog)))"
    by (simp add: blog_simps)
  have h2: "\<exists>t \<in> set (tags ?i). t \<in> set (entry_tags blog (Entry 3))"
    by (auto simp: blog_simps)
  have h3: "number_of_entries ?i = None" by (simp add: latest_plugin_def)
  have "Tag ''a'' \<in> set (entry_tags blog (Entry 3)) \<and> Tag ''c'' \<in> set (entry_tags blog (Entry 3))"
    by (simp add: blog_def)
  with tag_union_exactly_once [OF h1 h2] h1 h3 show ?thesis by simp
qed

text \<open>
  C2. An empty configured set is no filter: with no category (no author, no tag)
  configured, the category (author, tag) restriction hands on the queryset it receives,
  unmodified; with all three empty the queryset before the limit is the deduplicated
  published set.
\<close>

theorem empty_filter_noop:
  "(categories inst = [] \<longrightarrow> categories_stage d inst qs = qs) \<and>
   (authors inst = [] \<longrightarrow> authors_stage d inst qs = qs) \<and>
   (tags inst = [] \<longrightarrow> tags_stage d inst qs = qs) \<and>
   (categories inst = [] \<and> authors inst = [] \<and> tags inst = [] \<longrightarrow>
      latest_queryset d inst = distinct_qs (published d))"
  by (simp add: categories_stage_def authors_stage_def tags_stage_def latest_queryset_def)

theorem empty_filter_noop_witness:
  "categories (latest_plugin None [] True [] []) = [] \<and>
   authors (latest_plugin None [] True [] []) = [] \<and>
   tags (latest_plugin None [] True [] []) = [] \<and>
   categories_stage blog (latest_plugin None [] True [] []) (published blog) = published blog \<and>
   authors_stage blog (latest_plugin None [] True [] []) (published blog) = published blog \<and>
   tags_stage blog (latest_plugin None [] True [] []) (published blog) = published blog \<and>
   latest_queryset blog (latest_plugin None [] True [] []) =
     [Entry 1, Entry 2, Entry 3, Entry 4, Entry 5]"
proof -
  let ?i = "latest_plugin None [] True [] []"
  have h: "categories ?i = []" "authors ?i = []" "tags ?i = []"
    by (simp_all add: latest_plugin_def)
  have p: "distinct_qs (published blog) = [Entry 1, Entry 2, Entry 3, Entry 4, Entry 5]"
    by (simp add: blog_def)
  from empty_filter_noop [of ?i blog "published blog"] h p show ?thesis by simp
qed

text \<open>
  C3. In the latest-entries and the query-entries render, a limit \<open>L > 0\<close> cuts the result
  (for the latest entries the deduplicated queryset) down to its first \<open>L\<close> rows, in their
  order; a limit that is zero or unset leaves the result as it is. The result is what the
  render stores under \<open>entries\<close>.
\<close>

theorem limit_truncates:
  "(number_of_entries inst = Some L \<and> 0 < L \<longrightarrow>
      latest_entries d inst = take L (latest_queryset d inst)) \<and>
   (number_of_entries inst = None \<or> number_of_entries inst = Some 0 \<longrightarrow>
      latest_entries d inst = latest_queryset d inst) \<and>
   distinct (latest_queryset d inst) \<and>
   (QueryEntriesPlugin.number_of_entries q = Some L \<and> 0 < L \<longrightarrow>
      query_entries d q = take L (search d (query q))) \<and>
   (QueryEntriesPlugin.number_of_entries q = None \<or>
    QueryEntriesPlugin.number_of_entries q = Some 0 \<longrightarrow>
      query_entries d q = search d (query q)) \<and>
   render_latest lctx d inst ph ''entries'' = Some (QuerySet (latest_entries d inst)) \<and>
   render_query qctx d q ph' ''entries'' = Some (QuerySet (query_entries d q))"
  by (auto simp: latest_entries_def query_entries_def latest_queryset_def distinct_distinct_qs
        render_latest_def render_query_def)

text \<open>
  The example of the specification: the tags \<open>a\<close> (entries 1, 3) and \<open>b\<close> (entries 2, 4)
  with the limit 3 give the first three of the entries 1, 2, 3, 4.
\<close>

theorem limit_truncates_witness:
  "number_of_entries (latest_plugin (Some 3) [] False [] [Tag ''a'', Tag ''b'']) = Some 3 \<and>
   latest_queryset blog (latest_plugin (Some 3) [] False [] [Tag ''a'', Tag ''b'']) =
     [Entry 1, Entry 2, Entry 3, Entry 4] \<and>
   latest_entries blog (latest_plugin (Some 3) [] False [] [Tag ''a'', Tag ''b'']) =
     [Entry 1, Entry 2, Entry 3] \<and>
   number_of_entries (latest_plugin (Some 0) [] False [] [Tag ''a'', Tag ''b'']) = Some 0 \<and>
   latest_entries blog (latest_plugin (Some 0) [] False [] [Tag ''a'', Tag ''b'']) =
     [Entry 1, Entry 2, Entry 3, Entry 4] \<and>
   query_entries blog \<lparr>query = ''django'', QueryEntriesPlugin.number_of_entries = Some 2,
                        QueryEntriesPlugin.template_to_render = []\<rparr> = [Entry 4, Entry 2] \<and>
   query_entries blog \<lparr>query = ''django'', QueryEntriesPlugin.number_of_entries = None,
                        QueryEntriesPlugin.template_to_render = []\<rparr> = [Entry 4, Entry 2, Entry 1]"
proof -
  let ?i3 = "latest_plugin (Some 3) [] False [] [Tag ''a'', Tag ''b'']"
  let ?i0 = "latest_plugin (Some 0) [] False [] [Tag ''a'', Tag ''b'']"
  let ?q2 = "\<lparr>query = ''django'', QueryEntriesPlugin.number_of_entries = Some 2,
              QueryEntriesPlugin.template_to_render = []\<rparr>"
  let ?qn = "\<lparr>query = ''django'', QueryEntriesPlugin.number_of_entries = None,
              QueryEntriesPlugin.template_to_render = []\<rparr>"
  have n3: "number_of_entries ?i3 = Some 3" and n0: "number_of_entries ?i0 = Some 0"
    by (simp_all add: latest_plugin_def)
  have qs3: "latest_queryset blog ?i3 = [Entry 1, Entry 2, Entry 3, Entry 4]"
    and qs0: "latest_queryset blog ?i0 = [Entry 1, Entry 2, Entry 3, Entry 4]"
    by (simp_all add: blog_simps)
  have s: "search blog ''django'' = [Entry 4, Entry 2, Entry 1]"
    by (simp add: blog_def)
  have "latest_entries blog ?i3 = take 3 (latest_queryset blog ?i3)"
    using limit_truncates [of ?i3 3 blog ?q2] n3 by simp
  moreover have "latest_entries blog ?i0 = latest_queryset blog ?i0"
    using limit_truncates [of ?i0 3 blog ?q2] n0 by simp
  moreover have "query_entries blog ?q2 = take 2 (search blog (query ?q2))"
    using limit_truncates [of ?i3 2 blog ?q2] by simp
  moreover have "query_entries blog ?qn = search blog (query ?qn)"
    using limit_truncates [of ?i3 2 blog ?qn] by simp
  ultimately show ?thesis using n3 n0 qs3 qs0 s by simp
qed



text \<open>
  C5. The claim is that the calendar render, given a configuration with neither year nor
  month, passes the current year and month on to the rendering layer. The render method
  reads no clock: with year and month unset, the parameters the rendering layer finds are
  unset too, whatever the date (here, not November 2026).
\<close>

theorem calendar_default_counterexample:
  "calendar_parameters
     (render_calendar Map.empty \<lparr>year = None, month = None\<rparr> ''content'') = Some (None, None) \<and>
   calendar_parameters
     (render_calendar Map.empty \<lparr>year = None, month = None\<rparr> ''content'') \<noteq>
     Some (Some 2026, Some 11)"
  by (simp add: calendar_parameters_def render_calendar_def)

text \<open>
  C5, as amended. The calendar render passes the configuration on as it is: the
  rendering layer receives the configured year and month unchanged, unset ones included,
  and the choice of a default is left to it.
\<close>

theorem calendar_parameters_raw:
  "calendar_parameters (render_calendar ctx inst ph) = Some (year inst, month inst) \<and>
   render_calendar ctx inst ph ''object'' = Some (Instance inst)"
  by (simp add: calendar_parameters_def render_calendar_def)

text \<open>
  C6. With the include-subcategories flag off the effective category set is the
  configured set; with the flag on it contains that set. Hence every entry that the
  category restriction selects with the flag off is selected with the flag on, out of any
  queryset; the same holds for the deduplicated queryset of the whole render, and so for
  its output when no limit cuts it.
\<close>

theorem subcategories_grow:
  "effective_categories d (inst\<lparr>subcategories := False\<rparr>) = categories inst \<and>
   set (effective_categories d (inst\<lparr>subcategories := False\<rparr>)) \<subseteq>
     set (effective_categories d (inst\<lparr>subcategories := True\<rparr>)) \<and>
   set (categories_stage d (inst\<lparr>subcategories := False\<rparr>) qs) \<subseteq>
     set (categories_stage d (inst\<lparr>subcategories := True\<rparr>) qs) \<and>
   set (latest_queryset d (inst\<lparr>subcategories := False\<rparr>)) \<subseteq>
     set (latest_queryset d (inst\<lparr>subcategories := True\<rparr>)) \<and>
   (number_of_entries inst = None \<or> number_of_entries inst = Some 0 \<longrightarrow>
      set (latest_entries d (inst\<lparr>subcategories := False\<rparr>)) \<subseteq>
        set (latest_entries d (inst\<lparr>subcategories := True\<rparr>)))"
proof -
  let ?off = "inst\<lparr>subcategories := False\<rparr>" and ?on = "inst\<lparr>subcategories := True\<rparr>"
  have eff: "effective_categories d ?off = categories inst"
    by (simp add: effective_categories_def)
  have cats: "set (effective_categories d ?off) \<subseteq> set (effective_categories d ?on)"
    by (auto simp: effective_categories_def Let_def)
  have stage: "set (categories_stage d ?off qs) \<subseteq> set (categories_stage d ?on qs)" for qs
    using cats by (auto simp: categories_stage_def set_filter_categories_in)
  have c: "category_restriction d ?off e \<Longrightarrow> category_restriction d ?on e" for e
    using cats by (auto simp: category_restriction_def)
  have a: "author_restriction d ?off e = author_restriction d ?on e" for e
    by (simp add: author_restriction_def)
  have t: "tag_restriction d ?off e = tag_restriction d ?on e" for e
    by (simp add: tag_restriction_def)
  have qs: "set (latest_queryset d ?off) \<subseteq> set (latest_queryset d ?on)"
    using c a t by (auto simp: latest_queryset_filter)
  have "number_of_entries inst = None \<or> number_of_entries inst = Some 0 \<longrightarrow>
        set (latest_entries d ?off) \<subseteq> set (latest_entries d ?on)"
    using qs by (auto simp: latest_entries_def)
  with eff cats stage qs show ?thesis by blast
qed

theorem subcategories_grow_witness:
  "number_of_entries (latest_plugin None [Category 1] True [] []) = None \<and>
   effective_categories blog (latest_plugin None [Category 1] False [] []) = [Category 1] \<and>
   effective_categories blog (latest_plugin None [Category 1] True [] []) =
     [Category 1, Category 2] \<and>
   latest_entries blog (latest_plugin None [Category 1] False [] []) = [Entry 2, Entry 3] \<and>
   latest_entries blog (latest_plugin None [Category 1] True [] []) =
     [Entry 1, Entry 2, Entry 3] \<and>
   set (latest_entries blog (latest_plugin None [Category 1] False [] [])) \<subseteq>
     set (latest_entries blog (latest_plugin None [Category 1] True [] []))"
proof -
  let ?i = "latest_plugin None [Category 1] True [] []"
  have off: "?i\<lparr>subcategories := False\<rparr> = latest_plugin None [Category 1] False [] []"
    and on: "?i\<lparr>subcategories := True\<rparr> = ?i"
    by (simp_all add: latest_plugin_def)
  have n: "number_of_entries ?i = None"
    by (simp add: latest_plugin_def)
  have "set (latest_entries blog (latest_plugin None [Category 1] False [] [])) \<subseteq>
        set (latest_entries blog ?i)"
    using subcategories_grow [of blog ?i "published blog"] n unfolding off on by blast
  moreover have "effective_categories blog (latest_plugin None [Category 1] False [] []) = [Category 1]"
    "effective_categories blog ?i = [Category 1, Category 2]"
    "latest_entries blog (latest_plugin None [Category 1] False [] []) = [Entry 2, Entry 3]"
    "latest_entries blog ?i = [Entry 1, Entry 2, Entry 3]"
    by (simp_all add: blog_simps)
  ultimately show ?thesis using n by blast
qed

text \<open>
  The limit is applied after the restrictions, to whichever queryset they produce: with
  the limit 1 the flag changes which entry comes first, and the single entry put out.
\<close>

lemma subcategories_then_limit:
  "latest_entries blog (latest_plugin (Some 1) [Category 1] False [] []) = [Entry 2] \<and>
   latest_entries blog (latest_plugin (Some 1) [Category 1] True [] []) = [Entry 1]"
  by (simp add: blog_simps)

text \<open>
  C7. The three restrictions compose conjunctively. The queryset of the latest-entries
  render, after deduplication, is the published entries that satisfy the category
  restriction and the author restriction and the tag restriction, in the order of the
  published queryset; each stage narrows the queryset it receives. Without a limit this
  is the output (with one, the output is its first rows, see C3).
\<close>

theorem filters_conjunctive:
  "latest_queryset d inst =
     filter (\<lambda>e. category_restriction d inst e \<and> author_restriction d inst e \<and>
                  tag_restriction d inst e) (distinct_qs (published d)) \<and>
   set (latest_queryset d inst) =
     {e \<in> set (published d). category_restriction d inst e \<and> author_restriction d inst e \<and>
                              tag_restriction d inst e} \<and>
   (number_of_entries inst = None \<or> number_of_entries inst = Some 0 \<longrightarrow>
      set (latest_entries d inst) =
        {e \<in> set (published d). category_restriction d inst e \<and> author_restriction d inst e \<and>
                                 tag_restriction d inst e}) \<and>
   set (categories_stage d inst qs) \<subseteq> set qs \<and>
   set (authors_stage d inst qs) \<subseteq> set qs \<and>
   set (tags_stage d inst qs) \<subseteq> set qs"
proof -
  let ?P = "\<lambda>e. category_restriction d inst e \<and> author_restriction d inst e \<and>
                 tag_restriction d inst e"
  have l: "latest_queryset d inst = filter ?P (distinct_qs (published d))"
    by (rule latest_queryset_filter)
  then have s: "set (latest_queryset d inst) = {e \<in> set (published d). ?P e}"
    by (simp add: set_distinct_qs)
  have n: "number_of_entries inst = None \<or> number_of_entries inst = Some 0 \<longrightarrow>
           set (latest_entries d inst) = {e \<in> set (published d). ?P e}"
    using s by (auto simp: latest_entries_def)
  have c: "set (categories_stage d inst qs) \<subseteq> set qs"
    by (auto simp: categories_stage_def set_filter_categories_in)
  have a: "set (authors_stage d inst qs) \<subseteq> set qs"
    by (auto simp: authors_stage_def set_filter_authors_in)
  have t: "set (tags_stage d inst qs) \<subseteq> set qs"
    by (auto simp: tags_stage_def set_get_union_by_model)
  from l s n c a t show ?thesis by blast
qed

text \<open>
  On the small blog, with category 1 and its descendants, the authors 1 and 2 and the
  tags \<open>b\<close> and \<open>c\<close>: entry 1 passes the category and the author restriction but carries
  neither tag, and is left out.
\<close>

theorem filters_conjunctive_witness:
  "number_of_entries
     (latest_plugin None [Category 1] True [Author 1, Author 2] [Tag ''b'', Tag ''c'']) = None \<and>
   set (latest_entries blog
     (latest_plugin None [Category 1] True [Author 1, Author 2] [Tag ''b'', Tag ''c''])) =
     {e \<in> set (published blog).
        category_restriction blog
          (latest_plugin None [Category 1] True [Author 1, Author 2] [Tag ''b'', Tag ''c'']) e \<and>
        author_restriction blog
          (latest_plugin None [Category 1] True [Author 1, Author 2] [Tag ''b'', Tag ''c'']) e \<and>
        tag_restriction blog
          (latest_plugin None [Category 1] True [Author 1, Author 2] [Tag ''b'', Tag ''c'']) e} \<and>
   latest_entries blog
     (latest_plugin None [Category 1] True [Author 1, Author 2] [Tag ''b'', Tag ''c'']) =
     [Entry 2, Entry 3] \<and>
   category_restriction blog
     (latest_plugin None [Category 1] True [Author 1, Author 2] [Tag ''b'', Tag ''c'']) (Entry 1) \<and>
   author_restriction blog
     (latest_plugin None [Category 1] True [Author 1, Author 2] [Tag ''b'', Tag ''c'']) (Entry 1) \<and>
   \<not> tag_restriction blog
     (latest_plugin None [Category 1] True [Author 1, Author 2] [Tag ''b'', Tag ''c'']) (Entry 1)"
proof -
  let ?i = "latest_plugin None [Category 1] True [Author 1, Author 2] [Tag ''b'', Tag ''c'']"
  have n: "number_of_entries ?i = None"
    by (simp add: latest_plugin_def)
  have v: "latest_entries blog ?i = [Entry 2, Entry 3]"
    by (simp add: blog_simps)
  have r: "category_restriction blog ?i (Entry 1)" "author_restriction blog ?i (Entry 1)"
    "\<not> tag_restriction blog ?i (Entry 1)"
    by (simp_all add: category_restriction_def author_restriction_def tag_restriction_def
          blog_simps)
  from filters_conjunctive [of blog ?i "published blog"] n v r show ?thesis by blast
qed

text \<open>
  C8. The random-entries render computes no entries (it leaves \<open>entries\<close> in the context
  alone) and names a template: \<open>template_to_render\<close> is the configured override when that
  is a non-empty string, and \<^verbatim>\<open>zinnia/tags/random_entries.html\<close> otherwise.
\<close>

theorem random_template:
  "(RandomEntriesPlugin.template_to_render inst \<noteq> [] \<longrightarrow>
      render_random ctx inst ph ''template_to_render'' =
        Some (Str (RandomEntriesPlugin.template_to_render inst))) \<and>
   (RandomEntriesPlugin.template_to_render inst = [] \<longrightarrow>
      render_random ctx inst ph ''template_to_render'' =
        Some (Str ''zinnia/tags/random_entries.html'')) \<and>
   render_random ctx inst ph ''entries'' = ctx ''entries''"
  by (simp add: render_random_def)

theorem random_template_witness:
  "render_random Map.empty
     \<lparr>RandomEntriesPlugin.number_of_entries = Some 5,
      RandomEntriesPlugin.template_to_render = ''blog/random.html''\<rparr> ''content''
     ''template_to_render'' = Some (Str ''blog/random.html'') \<and>
   render_random Map.empty
     \<lparr>RandomEntriesPlugin.number_of_entries = Some 5,
      RandomEntriesPlugin.template_to_render = []\<rparr> ''content''
     ''template_to_render'' = Some (Str ''zinnia/tags/random_entries.html'')"
  using random_template
      [of "\<lparr>RandomEntriesPlugin.number_of_entries = Some 5,
            RandomEntriesPlugin.template_to_render = ''blog/random.html''\<rparr>" Map.empty "''content''"]
    random_template
      [of "\<lparr>RandomEntriesPlugin.number_of_entries = Some 5,
            RandomEntriesPlugin.template_to_render = []\<rparr>" Map.empty "''content''"]
  by simp

text \<open>
  C9. Each of the seven render methods returns the context it was given with its own
  keys set, \<open>object\<close> and \<open>placeholder\<close> always among them, and every other key of the
  context bound as before.
\<close>

theorem render_frame:
  "(render_latest lctx d li ph ''object'' = Some (Instance li) \<and>
    render_latest lctx d li ph ''placeholder'' = Some (Placeholder ph) \<and>
    (\<forall>k. k \<notin> {''entries'', ''object'', ''placeholder''} \<longrightarrow>
       render_latest lctx d li ph k = lctx k)) \<and>
   (render_selected sctx d si ph ''object'' = Some (Instance si) \<and>
    render_selected sctx d si ph ''placeholder'' = Some (Placeholder ph) \<and>
    (\<forall>k. k \<notin> {''entries'', ''object'', ''placeholder''} \<longrightarrow>
       render_selected sctx d si ph k = sctx k)) \<and>
   (render_random rctx ri ph ''object'' = Some (Instance ri) \<and>
    render_random rctx ri ph ''placeholder'' = Some (Placeholder ph) \<and>
    (\<forall>k. k \<notin> {''object'', ''placeholder'', ''template_to_render''} \<longrightarrow>
       render_random rctx ri ph k = rctx k)) \<and>
   (render_query qctx d qi ph ''object'' = Some (Instance qi) \<and>
    render_query qctx d qi ph ''placeholder'' = Some (Placeholder ph) \<and>
    (\<forall>k. k \<notin> {''entries'', ''object'', ''placeholder''} \<longrightarrow>
       render_query qctx d qi ph k = qctx k)) \<and>
   (render_calendar cctx ci ph ''object'' = Some (Instance ci) \<and>
    render_calendar cctx ci ph ''placeholder'' = Some (Placeholder ph) \<and>
    (\<forall>k. k \<notin> {''object'', ''placeholder''} \<longrightarrow> render_calendar cctx ci ph k = cctx k)) \<and>
   (render_search ctx i ph ''object'' = Some (Instance i) \<and>
    render_search ctx i ph ''placeholder'' = Some (Placeholder ph) \<and>
    (\<forall>k. k \<notin> {''object'', ''placeholder''} \<longrightarrow> render_search ctx i ph k = ctx k)) \<and>
   (render_tools ctx i ph ''object'' = Some (Instance i) \<and>
    render_tools ctx i ph ''placeholder'' = Some (Placeholder ph) \<and>
    (\<forall>k. k \<notin> {''object'', ''placeholder''} \<longrightarrow> render_tools ctx i ph k = ctx k))"
  by (simp add: render_latest_def render_selected_def render_random_def render_query_def
        render_calendar_def render_search_def render_tools_def)

theorem render_frame_witness:
  "render_latest [''request'' \<mapsto> Opaque 1] blog (latest_plugin (Some 3) [] False [] [])
     ''content'' ''request'' = Some (Opaque 1) \<and>
   render_selected [''request'' \<mapsto> Opaque 1] blog
     \<lparr>entries = [Entry 5, Entry 9, Entry 2], SelectedEntriesPlugin.template_to_render = []\<rparr>
     ''content'' ''request'' = Some (Opaque 1) \<and>
   render_random [''request'' \<mapsto> Opaque 1]
     \<lparr>RandomEntriesPlugin.number_of_entries = Some 5,
      RandomEntriesPlugin.template_to_render = []\<rparr>
     ''content'' ''request'' = Some (Opaque 1) \<and>
   render_query [''request'' \<mapsto> Opaque 1] blog
     \<lparr>query = ''django'', QueryEntriesPlugin.number_of_entries = Some 2,
      QueryEntriesPlugin.template_to_render = []\<rparr>
     ''content'' ''request'' = Some (Opaque 1) \<and>
   render_calendar [''request'' \<mapsto> Opaque 1] \<lparr>year = None, month = None\<rparr>
     ''content'' ''request'' = Some (Opaque 1) \<and>
   render_search [''request'' \<mapsto> Opaque 1] (7::nat) ''content'' ''request'' = Some (Opaque 1) \<and>
   render_tools [''request'' \<mapsto> Opaque 1] (7::nat) ''content'' ''request'' = Some (Opaque 1)"
proof -
  have k3: "''request'' \<notin> {''entries'', ''object'', ''placeholder''}"
    and kr: "''request'' \<notin> {''object'', ''placeholder'', ''template_to_render''}"
    and k2: "''request'' \<notin> {''object'', ''placeholder''}"
    by simp_all
  note f = render_frame
    [of "[''request'' \<mapsto> Opaque 1]" blog "latest_plugin (Some 3) [] False [] []" "''content''"
        "[''request'' \<mapsto> Opaque 1]"
        "\<lparr>entries = [Entry 5, Entry 9, Entry 2], SelectedEntriesPlugin.template_to_render = []\<rparr>"
        "[''request'' \<mapsto> Opaque 1]"
        "\<lparr>RandomEntriesPlugin.number_of_entries = Some 5,
          RandomEntriesPlugin.template_to_render = []\<rparr>"
        "[''request'' \<mapsto> Opaque 1]"
        "\<lparr>query = ''django'', QueryEntriesPlugin.number_of_entries = Some 2,
          QueryEntriesPlugin.template_to_render = []\<rparr>"
        "[''request'' \<mapsto> Opaque 1]" "\<lparr>year = None, month = None\<rparr>"
        "[''request'' \<mapsto> Opaque 1]" "7::nat"]
  note c2 = conjunct2
  have "render_latest [''request'' \<mapsto> Opaque 1] blog
      (latest_plugin (Some 3) [] False [] []) ''content'' ''request'' =
      [''request'' \<mapsto> Opaque 1] ''request''"
    by (rule f [THEN conjunct1, THEN c2, THEN c2, rule_format, OF k3])
  moreover have "render_selected [''request'' \<mapsto> Opaque 1] blog
      \<lparr>entries = [Entry 5, Entry 9, Entry 2], SelectedEntriesPlugin.template_to_render = []\<rparr>
      ''content'' ''request'' = [''request'' \<mapsto> Opaque 1] ''request''"
    by (rule f [THEN c2, THEN conjunct1, THEN c2, THEN c2, rule_format, OF k3])
  moreover have "render_random [''request'' \<mapsto> Opaque 1]
      \<lparr>RandomEntriesPlugin.number_of_entries = Some 5,
       RandomEntriesPlugin.template_to_render = []\<rparr>
      ''content'' ''request'' = [''request'' \<mapsto> Opaque 1] ''request''"
    by (rule f [THEN c2, THEN c2, THEN conjunct1, THEN c2, THEN c2, rule_format, OF kr])
  moreover have "render_query [''request'' \<mapsto> Opaque 1] blog
      \<lparr>query = ''django'', QueryEntriesPlugin.number_of_entries = Some 2,
       QueryEntriesPlugin.template_to_render = []\<rparr>
      ''content'' ''request'' = [''request'' \<mapsto> Opaque 1] ''request''"
    by (rule f [THEN c2, THEN c2, THEN c2, THEN conjunct1, THEN c2, THEN c2, rule_format, OF k3])
  moreover have "render_calendar [''request'' \<mapsto> Opaque 1]
      \<lparr>year = None, month = None\<rparr> ''content'' ''request'' =
      [''request'' \<mapsto> Opaque 1] ''request''"
    by (rule f [THEN c2, THEN c2, THEN c2, THEN c2, THEN conjunct1, THEN c2, THEN c2,
          rule_format, OF k2])
  moreover have "render_search [''request'' \<mapsto> Opaque 1] (7::nat) ''content''
      ''request'' = [''request'' \<mapsto> Opaque 1] ''request''"
    by (rule f [THEN c2, THEN c2, THEN c2, THEN c2, THEN c2, THEN conjunct1, THEN c2, THEN c2,
          rule_format, OF k2])
  moreover have "render_tools [''request'' \<mapsto> Opaque 1] (7::nat) ''content''
      ''request'' = [''request'' \<mapsto> Opaque 1] ''request''"
    by (rule f [THEN c2, THEN c2, THEN c2, THEN c2, THEN c2, THEN c2, THEN c2, THEN c2,
          rule_format, OF k2])
  ultimately show ?thesis by simp
qed

text \<open>
  C10. For every configuration of the latest-entries plugin, whatever its category,
  author and tag sets (all empty included) and whatever its limit, the entry sequence it
  puts out holds no entry twice: the deduplication is not under any of the guards.
\<close>

theorem latest_entries_distinct:
  "distinct (latest_entries d inst) \<and>
   render_latest ctx d inst ph ''entries'' = Some (QuerySet (latest_entries d inst))"
proof
  have "distinct (latest_queryset d inst)"
    by (simp add: latest_queryset_def distinct_distinct_qs)
  then show "distinct (latest_entries d inst)"
    by (simp add: latest_entries_def Let_def split: option.split)
next
  show "render_latest ctx d inst ph ''entries'' = Some (QuerySet (latest_entries d inst))"
    by (simp add: render_latest_def)
qed

end
